theory Spec2Isabelle
  imports Main
begin

section \<open>The configuration accessors of \<open>scripts/multiboot/config.py\<close>\<close>

text \<open>
  The module creates one \<open>ConfigParser\<close> object at import time, reads
  \<open>defaults.conf\<close> into it and offers six accessors over it. The accessors are
  embedded below as functions that take the parser object and return their result
  together with the parser object, so that what a call does to the module's state is
  part of the model. An exception is a value \<open>Inl e\<close>.

  Every accessor goes through methods of Python's \<open>configparser\<close> module
  (\<open>ConfigParser\<close> in Python 2). Those methods are embedded first, from the library's
  code: what the accessors return is decided there.
\<close>

subsection \<open>Exceptions\<close>

text \<open>
  \<open>KeyError\<close> is what the mapping protocol of Python 3 raises (\<open>config[section]\<close>,
  \<open>proxy[option]\<close>); \<open>NoSectionError\<close> and \<open>NoOptionError\<close> are raised by the
  parser's \<open>get\<close> method. The three interpolation errors come from the value
  interpolation that \<open>ConfigParser\<close> applies to every value it returns.
  \<open>FormatError\<close> stands for the \<open>ValueError\<close> or \<open>TypeError\<close> of the string
  formatting operator of Python 2. Messages are left out; the constructor arguments are
  the option, the section and (where there is one) the variable name.
\<close>

datatype error =
    KeyError string
  | NoSectionError string
  | NoOptionError string string
  | InterpolationSyntaxError string string
  | InterpolationMissingOptionError string string string
  | InterpolationDepthError string string
  | FormatError

text \<open>
  The errors that report a missing section or a missing option.
\<close>

fun lookup_error :: "error \<Rightarrow> bool" where
  "lookup_error (KeyError k) = True"
| "lookup_error (NoSectionError s) = True"
| "lookup_error (NoOptionError opt s) = True"
| "lookup_error e = False"

subsection \<open>The parser object and the interpreter\<close>

text \<open>
  The parser keeps the options of the \<open>[DEFAULT]\<close> section in \<open>_defaults\<close> and
  those of every other section in \<open>_sections\<close>. With \<open>allow_no_value\<close> off, as
  here, every value is a string.
\<close>

record configparser =
  defaults :: "string \<rightharpoonup> string"
  sections :: "string \<rightharpoonup> (string \<rightharpoonup> string)"

text \<open>
  What the module takes from the interpreter: the flag \<open>py3\<close>, computed from
  \<open>sys.hexversion\<close>, and, under Python 2 only, the two statements inside the
  interpolation loop of \<open>ConfigParser._interpolate\<close> (the substitution
  \<open>_KEYCRE.sub\<close> followed by \<open>value % vars\<close>). They rest on the string formatting
  operator of Python 2, which is taken as a parameter: it returns the formatted string,
  or fails with a \<open>KeyError\<close> for a name (\<open>MissingKey\<close>) or with another exception
  (\<open>BadFormat\<close>).
\<close>

datatype format_failure = MissingKey string | BadFormat

record runtime =
  py3 :: bool
  legacy_format :: "string \<Rightarrow> (string \<rightharpoonup> string) \<Rightarrow> format_failure + string"

definition DEFAULTSECT :: string where
  "DEFAULTSECT = ''DEFAULT''"

definition MAX_INTERPOLATION_DEPTH :: nat where
  "MAX_INTERPOLATION_DEPTH = 10"

text \<open>
  A document as \<open>read\<close> leaves it: a section header is never empty, and the options
  of a \<open>[DEFAULT]\<close> header go to \<open>_defaults\<close>, so neither name is a key of
  \<open>_sections\<close>.
\<close>

definition loaded :: "configparser \<Rightarrow> bool" where
  "loaded config \<longleftrightarrow> sections config [] = None \<and> sections config DEFAULTSECT = None"

subsection \<open>Library: option names\<close>

text \<open>
  \<open>optionxform\<close> is \<open>optionstr.lower()\<close>. A character is a code point below 256.
  Python 3 lowers the letters of Latin-1 as well as A to Z; the byte strings of
  Python 2 lower A to Z only.
\<close>

definition lower_char :: "bool \<Rightarrow> char \<Rightarrow> char" where
  "lower_char unicode c =
     (let n = (of_char c :: nat) in
      if 65 \<le> n \<and> n \<le> 90 then char_of (n + 32)
      else if unicode \<and> 192 \<le> n \<and> n \<le> 222 \<and> n \<noteq> 215 then char_of (n + 32)
      else c)"

definition optionxform :: "runtime \<Rightarrow> string \<Rightarrow> string" where
  "optionxform rt optionstr = map (lower_char (py3 rt)) optionstr"

subsection \<open>Library: \<open>has_section\<close>, \<open>has_option\<close>, \<open>_unify_values\<close>\<close>

definition has_section :: "configparser \<Rightarrow> string \<Rightarrow> bool" where
  "has_section self section = (sections self section \<noteq> None)"

definition has_option :: "runtime \<Rightarrow> configparser \<Rightarrow> string \<Rightarrow> string \<Rightarrow> bool" where
  "has_option rt self section opt =
     (if section = [] \<or> section = DEFAULTSECT then
        defaults self (optionxform rt opt) \<noteq> None
      else
        (case sections self section of
           None \<Rightarrow> False
         | Some sectiondict \<Rightarrow>
             sectiondict (optionxform rt opt) \<noteq> None
             \<or> defaults self (optionxform rt opt) \<noteq> None))"

text \<open>
  \<open>_unify_values\<close> returns the chain of lookups \<open>vars\<close> (empty here), section,
  defaults: the section's own entry wins over the default.
\<close>

definition unify_values :: "configparser \<Rightarrow> string \<Rightarrow> error + (string \<rightharpoonup> string)" where
  "unify_values self section =
     (case sections self section of
        Some sectiondict \<Rightarrow> Inr (defaults self ++ sectiondict)
      | None \<Rightarrow>
          if section \<noteq> DEFAULTSECT then Inl (NoSectionError section)
          else Inr (defaults self))"

subsection \<open>Library: value interpolation\<close>

text \<open>
  \<open>BasicInterpolation._KEYCRE\<close> is \<open>%\(([^)]+)\)s\<close>, matched at the start of
  \<open>rest\<close>: the result is the name and what follows the match.
\<close>

definition keycre_match :: "string \<Rightarrow> (string \<times> string) option" where
  "keycre_match rest =
     (case rest of
        a # b # t \<Rightarrow>
          if a = CHR ''%'' \<and> b = CHR ''('' then
            (let name = takeWhile (\<lambda>c. c \<noteq> CHR '')'') t;
                 after = dropWhile (\<lambda>c. c \<noteq> CHR '')'') t
             in if name = [] then None
                else (case after of
                        x # y # rest' \<Rightarrow>
                          if x = CHR '')'' \<and> y = CHR ''s'' then Some (name, rest') else None
                      | _ \<Rightarrow> None))
          else None
      | _ \<Rightarrow> None)"

text \<open>
  The \<open>while rest\<close> loop of \<open>BasicInterpolation._interpolate_some\<close>. The result
  is what the loop appends to \<open>accum\<close>. The test \<open>depth > MAX_INTERPOLATION_DEPTH\<close>
  at the entry of the method is made here before the recursive call, at \<open>depth + 1\<close>.
\<close>

function interpolate_some ::
  "runtime \<Rightarrow> string \<Rightarrow> string \<Rightarrow> (string \<rightharpoonup> string) \<Rightarrow> nat \<Rightarrow> string \<Rightarrow> error + string" where
  "interpolate_some rt opt section mp depth rest =
     (if rest = [] then Inr []
      else
        (let pre = takeWhile (\<lambda>c. c \<noteq> CHR ''%'') rest;
             rest1 = dropWhile (\<lambda>c. c \<noteq> CHR ''%'') rest
         in if rest1 = [] then Inr rest
            else if take 1 (tl rest1) = ''%'' then
              (case interpolate_some rt opt section mp depth (drop 2 rest1) of
                 Inl e \<Rightarrow> Inl e
               | Inr r \<Rightarrow> Inr (pre @ ''%'' @ r))
            else if take 1 (tl rest1) = ''('' then
              (case keycre_match rest1 of
                 None \<Rightarrow> Inl (InterpolationSyntaxError opt section)
               | Some (name, rest2) \<Rightarrow>
                   (case mp (optionxform rt name) of
                      None \<Rightarrow>
                        Inl (InterpolationMissingOptionError opt section (optionxform rt name))
                    | Some v \<Rightarrow>
                        (case (if CHR ''%'' \<in> set v then
                                 (if depth + 1 > MAX_INTERPOLATION_DEPTH
                                  then Inl (InterpolationDepthError opt section)
                                  else interpolate_some rt opt section mp (depth + 1) v)
                               else Inr v) of
                           Inl e \<Rightarrow> Inl e
                         | Inr a \<Rightarrow>
                             (case interpolate_some rt opt section mp depth rest2 of
                                Inl e \<Rightarrow> Inl e
                              | Inr r \<Rightarrow> Inr (pre @ a @ r)))))
            else Inl (InterpolationSyntaxError opt section)))"
  by pat_completeness auto
text \<open>
  \<open>BasicInterpolation.before_get\<close> starts the loop at depth 1 and joins \<open>accum\<close>.
\<close>

definition basic_before_get ::
  "runtime \<Rightarrow> string \<Rightarrow> string \<Rightarrow> string \<Rightarrow> (string \<rightharpoonup> string) \<Rightarrow> error + string" where
  "basic_before_get rt section opt val d =
     (if 1 > MAX_INTERPOLATION_DEPTH then Inl (InterpolationDepthError opt section)
      else interpolate_some rt opt section d 1 val)"

text \<open>
  The test \<open>"%(" in value\<close> of Python 2's \<open>ConfigParser._interpolate\<close>, and its
  loop: at most \<open>MAX_INTERPOLATION_DEPTH\<close> rounds of formatting, as long as the value
  holds a \<open>%(\<close>. The loop turns the \<open>KeyError\<close> of the formatting into an
  \<open>InterpolationMissingOptionError\<close> and lets any other exception through.
\<close>

fun percent_paren :: "string \<Rightarrow> bool" where
  "percent_paren (a # b # cs) = ((a = CHR ''%'' \<and> b = CHR ''('') \<or> percent_paren (b # cs))"
| "percent_paren cs = False"

fun legacy_interpolate ::
  "runtime \<Rightarrow> nat \<Rightarrow> string \<Rightarrow> string \<Rightarrow> (string \<rightharpoonup> string) \<Rightarrow> string \<Rightarrow> error + string" where
  "legacy_interpolate rt 0 section opt vars val =
     (if val \<noteq> [] \<and> percent_paren val then Inl (InterpolationDepthError opt section)
      else Inr val)"
| "legacy_interpolate rt (Suc depth) section opt vars val =
     (if val \<noteq> [] \<and> percent_paren val then
        (case legacy_format rt val vars of
           Inl (MissingKey k) \<Rightarrow> Inl (InterpolationMissingOptionError opt section k)
         | Inl BadFormat \<Rightarrow> Inl FormatError
         | Inr val' \<Rightarrow> legacy_interpolate rt depth section opt vars val')
      else Inr val)"

definition before_get ::
  "runtime \<Rightarrow> string \<Rightarrow> string \<Rightarrow> string \<Rightarrow> (string \<rightharpoonup> string) \<Rightarrow> error + string" where
  "before_get rt section opt val d =
     (if py3 rt then basic_before_get rt section opt val d
      else legacy_interpolate rt MAX_INTERPOLATION_DEPTH section opt d val)"

subsection \<open>Library: \<open>get\<close> and the mapping protocol\<close>

text \<open>
  \<open>RawConfigParser.get\<close> without \<open>raw\<close>, \<open>vars\<close> and \<open>fallback\<close>, as the
  module calls it; Python 2's \<open>ConfigParser.get\<close> has the same steps.
\<close>

definition parser_get :: "runtime \<Rightarrow> configparser \<Rightarrow> string \<Rightarrow> string \<Rightarrow> error + string" where
  "parser_get rt self section opt =
     (case unify_values self section of
        Inl e \<Rightarrow> Inl e
      | Inr d \<Rightarrow>
          (case d (optionxform rt opt) of
             None \<Rightarrow> Inl (NoOptionError (optionxform rt opt) section)
           | Some val \<Rightarrow> before_get rt section (optionxform rt opt) val d))"

text \<open>
  \<open>RawConfigParser.__getitem__\<close> returns the section's proxy, which holds the
  section's name; \<open>SectionProxy.__getitem__\<close> and \<open>SectionProxy.__contains__\<close>
  ask the parser.
\<close>

definition parser_getitem :: "configparser \<Rightarrow> string \<Rightarrow> error + string" where
  "parser_getitem self key =
     (if key \<noteq> DEFAULTSECT \<and> \<not> has_section self key then Inl (KeyError key)
      else Inr key)"

definition proxy_getitem :: "runtime \<Rightarrow> configparser \<Rightarrow> string \<Rightarrow> string \<Rightarrow> error + string" where
  "proxy_getitem rt parser name key =
     (if \<not> has_option rt parser name key then Inl (KeyError key)
      else parser_get rt parser name key)"

definition proxy_contains :: "runtime \<Rightarrow> configparser \<Rightarrow> string \<Rightarrow> string \<Rightarrow> bool" where
  "proxy_contains rt parser name key = has_option rt parser name key"

subsection \<open>The accessors of the module\<close>

text \<open>
  A call takes the module's parser object and returns its result, or the exception it
  raises, with the parser object after the call. \<open>andthen\<close> is sequencing: an
  exception ends the evaluation.
\<close>

type_synonym 'a action = "configparser \<Rightarrow> (error + 'a) \<times> configparser"

definition andthen :: "'a action \<Rightarrow> ('a \<Rightarrow> 'b action) \<Rightarrow> 'b action" where
  "andthen m f config =
     (case m config of
        (Inl e, config') \<Rightarrow> (Inl e, config')
      | (Inr x, config') \<Rightarrow> f x config')"

definition return :: "'a \<Rightarrow> 'a action" where
  "return x config = (Inr x, config)"

definition get :: "runtime \<Rightarrow> string \<Rightarrow> string \<Rightarrow> string action" where
  "get rt section opt config =
     (if py3 rt then
        (case parser_getitem config section of
           Inl e \<Rightarrow> (Inl e, config)
         | Inr proxy \<Rightarrow> (proxy_getitem rt config proxy opt, config))
      else (parser_get rt config section opt, config))"

definition has :: "runtime \<Rightarrow> string \<Rightarrow> string \<Rightarrow> bool action" where
  "has rt section opt config =
     (if py3 rt then
        (case parser_getitem config section of
           Inl e \<Rightarrow> (Inl e, config)
         | Inr proxy \<Rightarrow> (Inr (proxy_contains rt config proxy opt), config))
      else (Inr (has_option rt config section opt), config))"

definition get_device :: "runtime \<Rightarrow> string action" where
  "get_device rt = get rt ''Defaults'' ''device''"

definition get_selinux :: "runtime \<Rightarrow> string option action" where
  "get_selinux rt =
     andthen (get_device rt) (\<lambda>d.
     andthen (has rt d ''selinux'') (\<lambda>b.
       if b then
         andthen (get_device rt) (\<lambda>d'.
         andthen (get rt d' ''selinux'') (\<lambda>val.
           if val \<noteq> [] \<and> val = ''unchanged'' then return None
           else return (Some val)))
       else return None))"

definition get_ramdisk_offset :: "runtime \<Rightarrow> string option action" where
  "get_ramdisk_offset rt =
     andthen (get_device rt) (\<lambda>d.
     andthen (has rt d ''ramdisk_offset'') (\<lambda>b.
       if b then
         andthen (get_device rt) (\<lambda>d'.
         andthen (get rt d' ''ramdisk_offset'') (\<lambda>val. return (Some val)))
       else return None))"

definition get_partition :: "runtime \<Rightarrow> string \<Rightarrow> string option action" where
  "get_partition rt part =
     andthen (get_device rt) (\<lambda>d.
     andthen (has rt d (''partition.'' @ part)) (\<lambda>b.
       if b then
         andthen (get_device rt) (\<lambda>d'.
         andthen (get rt d' (''partition.'' @ part)) (\<lambda>val. return (Some val)))
       else return None))"

subsection \<open>The statements at module level\<close>



subsection \<open>Concrete interpreters and documents\<close>

text \<open>
  The two interpreters; the formatting operator of the Python 2 one is never reached by
  a value without \<open>%(\<close>. A document is written as the list of the options of
  \<open>[DEFAULT]\<close> and the list of the other sections.
\<close>

definition python3 :: runtime where
  "python3 = \<lparr>py3 = True, legacy_format = (\<lambda>val vars. Inl BadFormat)\<rparr>"

definition python2 :: runtime where
  "python2 = \<lparr>py3 = False, legacy_format = (\<lambda>val vars. Inl BadFormat)\<rparr>"

definition document ::
  "(string \<times> string) list \<Rightarrow> (string \<times> (string \<times> string) list) list \<Rightarrow> configparser" where
  "document ds ss =
     \<lparr>defaults = map_of ds, sections = map_of (map (\<lambda>(name, kvs). (name, map_of kvs)) ss)\<rparr>"

text \<open>
  The document of the specification's scenarios:
  \<^verbatim>\<open>[Defaults] device = deviceA\<close>,
  \<^verbatim>\<open>[deviceA] selinux = permissive, partition.boot = /dev/sda1\<close>.
\<close>

definition scenario :: configparser where
  "scenario = document []
     [(''Defaults'', [(''device'', ''deviceA'')]),
      (''deviceA'', [(''selinux'', ''permissive''), (''partition.boot'', ''/dev/sda1'')])]"

section \<open>Termination of the interpolation\<close>

lemma keycre_match_shorter:
  "keycre_match rest = Some (name, rest') \<Longrightarrow> length rest' < length rest"
proof -
  assume m: "keycre_match rest = Some (name, rest')"
  then obtain a b t where r: "rest = a # b # t"
    by (auto simp: keycre_match_def split: list.splits)
  from m r obtain x y where d: "dropWhile (\<lambda>c. c \<noteq> CHR '')'') t = x # y # rest'"
    by (auto simp: keycre_match_def Let_def split: list.splits if_splits)
  have "length (dropWhile (\<lambda>c. c \<noteq> CHR '')'') t) \<le> length t"
    by (rule length_dropWhile_le)
  with d r show ?thesis by simp
qed

termination interpolate_some
proof (relation "measures [\<lambda>(rt, opt, section, mp, depth, rest). Suc MAX_INTERPOLATION_DEPTH - depth,
                           \<lambda>(rt, opt, section, mp, depth, rest). length rest]", goal_cases)
  case 1
  show ?case by simp
next
  case (2 rt opt sect mp depth rest pre rest1)
  have "length (dropWhile (\<lambda>c. c \<noteq> CHR ''%'') rest) \<le> length rest"
    by (rule length_dropWhile_le)
  with 2 show ?case by (cases "dropWhile (\<lambda>c. c \<noteq> CHR ''%'') rest") auto
next
  case (3 rt opt sect mp depth rest pre rest1 x2 name rest2 v)
  then show ?case by (auto simp: MAX_INTERPOLATION_DEPTH_def)
next
  case (4 rt opt sect mp depth rest pre rest1 x2 name rest2 v a)
  have "length (dropWhile (\<lambda>c. c \<noteq> CHR ''%'') rest) \<le> length rest"
    by (rule length_dropWhile_le)
  moreover from 4 have "length rest2 < length rest1"
    using keycre_match_shorter by metis
  ultimately show ?case using 4 by auto
qed

declare interpolate_some.simps [simp del]

section \<open>What the library methods return\<close>

subsection \<open>The parser object after a call\<close>

lemma andthen_frame:
  assumes "\<And>c. snd (m c) = c"
  shows "andthen m f config = (case fst (m config) of Inl e \<Rightarrow> (Inl e, config) | Inr x \<Rightarrow> f x config)"
  using assms [of config] by (cases "m config") (auto simp: andthen_def split: sum.splits)

lemma get_state: "snd (get rt s k config) = config"
  by (simp add: get_def split: sum.splits)

lemma has_state: "snd (has rt s k config) = config"
  by (simp add: has_def split: sum.splits)

lemma get_device_state: "snd (get_device rt config) = config"
  by (simp add: get_device_def get_state)

subsection \<open>Results of \<open>get\<close> and \<open>has\<close>\<close>

lemma fst_get:
  "fst (get rt s k config) =
     (if py3 rt then
        (if s \<noteq> DEFAULTSECT \<and> sections config s = None then Inl (KeyError s)
         else if \<not> has_option rt config s k then Inl (KeyError k)
         else parser_get rt config s k)
      else parser_get rt config s k)"
  by (simp add: get_def parser_getitem_def proxy_getitem_def has_section_def)

lemma fst_has:
  "fst (has rt s k config) =
     (if py3 rt \<and> s \<noteq> DEFAULTSECT \<and> sections config s = None then Inl (KeyError s)
      else Inr (has_option rt config s k))"
  by (simp add: has_def parser_getitem_def proxy_contains_def has_section_def)

lemma loaded_section:
  "loaded config \<Longrightarrow> sections config s = Some sd \<Longrightarrow> s \<noteq> [] \<and> s \<noteq> DEFAULTSECT"
  by (auto simp: loaded_def)

lemma section_has:
  assumes "loaded config" and "sections config s = Some sd"
  shows "fst (has rt s k config) = Inr ((defaults config ++ sd) (optionxform rt k) \<noteq> None)"
  using assms loaded_section [OF assms]
  by (auto simp: fst_has has_option_def map_add_def split: option.splits)

lemma section_get:
  assumes "loaded config" and "sections config s = Some sd"
  shows "fst (get rt s k config) =
     (case (defaults config ++ sd) (optionxform rt k) of
        None \<Rightarrow> Inl (if py3 rt then KeyError k else NoOptionError (optionxform rt k) s)
      | Some v \<Rightarrow> before_get rt s (optionxform rt k) v (defaults config ++ sd))"
  using assms loaded_section [OF assms]
  by (auto simp: fst_get has_option_def parser_get_def unify_values_def map_add_def
      split: option.splits)

lemma default_get:
  assumes "sections config DEFAULTSECT = None"
  shows "fst (get rt DEFAULTSECT k config) =
     (case defaults config (optionxform rt k) of
        None \<Rightarrow> Inl (if py3 rt then KeyError k else NoOptionError (optionxform rt k) DEFAULTSECT)
      | Some v \<Rightarrow> before_get rt DEFAULTSECT (optionxform rt k) v (defaults config))"
  using assms
  by (auto simp: fst_get has_option_def parser_get_def unify_values_def split: option.splits)

lemma missing_section_get:
  assumes "sections config s = None" and "s \<noteq> DEFAULTSECT"
  shows "fst (get rt s k config) = Inl (if py3 rt then KeyError s else NoSectionError s)"
  using assms by (auto simp: fst_get parser_get_def unify_values_def)

subsection \<open>Option names in lower case\<close>

lemma optionxform_selinux: "optionxform rt ''selinux'' = ''selinux''"
  by (simp add: optionxform_def lower_char_def)

lemma optionxform_partition: "optionxform rt (''partition.'' @ name) = ''partition.'' @ optionxform rt name"
  by (simp add: optionxform_def lower_char_def)

lemma optionxform_device: "optionxform rt ''device'' = ''device''"
  by (simp add: optionxform_def lower_char_def)

lemma optionxform_ramdisk_offset: "optionxform rt ''ramdisk_offset'' = ''ramdisk_offset''"
  by (simp add: optionxform_def lower_char_def)

subsection \<open>Interpolation\<close>

text \<open>
  A value without \<open>%\<close> comes out of the interpolation as it went in, and the
  interpolation raises no lookup error.
\<close>

lemma percent_paren_percent: "percent_paren v \<Longrightarrow> CHR ''%'' \<in> set v"
  by (induction v rule: percent_paren.induct) auto

lemma legacy_interpolate_plain:
  "\<not> percent_paren v \<Longrightarrow> legacy_interpolate rt n s k d v = Inr v"
  by (cases n) auto

lemma before_get_plain: "CHR ''%'' \<notin> set v \<Longrightarrow> before_get rt s k v d = Inr v"
proof -
  assume a: "CHR ''%'' \<notin> set v"
  then have d: "dropWhile (\<lambda>c. c \<noteq> CHR ''%'') v = []" by (induction v) auto
  have "interpolate_some rt k s d 1 v = Inr v"
    by (subst interpolate_some.simps) (simp add: d)
  moreover have "legacy_interpolate rt MAX_INTERPOLATION_DEPTH s k d v = Inr v"
    using a percent_paren_percent [of v] by (blast intro: legacy_interpolate_plain)
  ultimately show ?thesis
    by (simp add: before_get_def basic_before_get_def MAX_INTERPOLATION_DEPTH_def)
qed




subsection \<open>The three device accessors, step by step\<close>

lemma get_selinux_unfold:
  "get_selinux rt config =
     (case fst (get_device rt config) of
        Inl e \<Rightarrow> (Inl e, config)
      | Inr d \<Rightarrow>
          (case fst (has rt d ''selinux'' config) of
             Inl e \<Rightarrow> (Inl e, config)
           | Inr b \<Rightarrow>
               if b then
                 (case fst (get rt d ''selinux'' config) of
                    Inl e \<Rightarrow> (Inl e, config)
                  | Inr val \<Rightarrow> if val = ''unchanged'' then (Inr None, config) else (Inr (Some val), config))
               else (Inr None, config)))"
  by (auto simp: get_selinux_def andthen_frame [OF get_device_state] andthen_frame [OF has_state]
      andthen_frame [OF get_state] return_def split: sum.splits)

lemma get_ramdisk_offset_unfold:
  "get_ramdisk_offset rt config =
     (case fst (get_device rt config) of
        Inl e \<Rightarrow> (Inl e, config)
      | Inr d \<Rightarrow>
          (case fst (has rt d ''ramdisk_offset'' config) of
             Inl e \<Rightarrow> (Inl e, config)
           | Inr b \<Rightarrow>
               if b then (map_sum id Some (fst (get rt d ''ramdisk_offset'' config)), config)
               else (Inr None, config)))"
  by (auto simp: get_ramdisk_offset_def andthen_frame [OF get_device_state]
      andthen_frame [OF has_state] andthen_frame [OF get_state] return_def split: sum.splits)

lemma get_partition_unfold:
  "get_partition rt name config =
     (case fst (get_device rt config) of
        Inl e \<Rightarrow> (Inl e, config)
      | Inr d \<Rightarrow>
          (case fst (has rt d (''partition.'' @ name) config) of
             Inl e \<Rightarrow> (Inl e, config)
           | Inr b \<Rightarrow>
               if b then (map_sum id Some (fst (get rt d (''partition.'' @ name) config)), config)
               else (Inr None, config)))"
  by (auto simp: get_partition_def andthen_frame [OF get_device_state]
      andthen_frame [OF has_state] andthen_frame [OF get_state] return_def split: sum.splits)

lemma get_selinux_state: "snd (get_selinux rt config) = config"
  by (simp add: get_selinux_unfold split: sum.splits)

lemma get_ramdisk_offset_state: "snd (get_ramdisk_offset rt config) = config"
  by (simp add: get_ramdisk_offset_unfold split: sum.splits)

lemma get_partition_state: "snd (get_partition rt name config) = config"
  by (simp add: get_partition_unfold split: sum.splits)

subsection \<open>What \<open>get_device\<close> returns\<close>

lemma get_device_missing:
  assumes "loaded config"
    and "case sections config ''Defaults'' of
           None \<Rightarrow> True
         | Some sd \<Rightarrow> (defaults config ++ sd) ''device'' = None"
  shows "\<exists>e. lookup_error e \<and> fst (get_device rt config) = Inl e"
proof (cases "sections config ''Defaults''")
  case None
  then show ?thesis
    by (simp add: get_device_def missing_section_get DEFAULTSECT_def)
next
  case (Some sd)
  define m where "m = defaults config ++ sd"
  from assms(2) Some have "m ''device'' = None"
    by (simp add: m_def)
  then show ?thesis
    by (simp add: get_device_def section_get [OF assms(1) Some] optionxform_device
        m_def [symmetric])
qed

lemma get_device_found:
  assumes "loaded config"
    and "sections config ''Defaults'' = Some sd"
    and "(defaults config ++ sd) ''device'' = Some v"
    and "CHR ''%'' \<notin> set v"
  shows "fst (get_device rt config) = Inr v"
proof -
  define m where "m = defaults config ++ sd"
  from assms(3) have "m ''device'' = Some v"
    by (simp only: m_def)
  with assms(4) show ?thesis
    by (simp add: get_device_def section_get [OF assms(1,2)] optionxform_device
        m_def [symmetric] before_get_plain)
qed

subsection \<open>The scenario\<close>

lemma scenario_loaded: "loaded scenario"
  by (simp add: loaded_def scenario_def document_def DEFAULTSECT_def)

lemma scenario_device: "fst (get_device python3 scenario) = Inr ''deviceA''"
  by code_simp

lemma scenario_deviceA:
  "sections scenario ''deviceA'' =
     Some (map_of [(''selinux'', ''permissive''), (''partition.boot'', ''/dev/sda1'')])"
  by (simp add: scenario_def document_def)

section \<open>The claims\<close>

subsection \<open>C1: \<open>get_selinux\<close>\<close>

text \<open>
  C1 (as amended). In every loaded document in which \<open>get_device()\<close> returns the
  name \<open>d\<close> of a section: \<open>get_selinux()\<close> returns \<open>None\<close> when \<open>selinux\<close> is
  found neither in \<open>d\<close> nor in \<open>[DEFAULT]\<close>; it returns \<open>None\<close> when the value found
  is \<open>unchanged\<close>; and for every other value found that holds no \<open>%\<close> it returns that
  value exactly, the empty string included. The claim as stated has \<open>None\<close> for the
  empty string; the test \<open>value and value == 'unchanged'\<close> of the source lets the empty
  string through.
\<close>

theorem get_selinux_cases:
  assumes "loaded config"
    and "fst (get_device rt config) = Inr d"
    and "sections config d = Some sd"
  shows "((defaults config ++ sd) ''selinux'' = None \<longrightarrow> fst (get_selinux rt config) = Inr None)
       \<and> ((defaults config ++ sd) ''selinux'' = Some ''unchanged'' \<longrightarrow>
            fst (get_selinux rt config) = Inr None)
       \<and> (\<forall>v. (defaults config ++ sd) ''selinux'' = Some v \<and> CHR ''%'' \<notin> set v \<and> v \<noteq> ''unchanged'' \<longrightarrow>
            fst (get_selinux rt config) = Inr (Some v))"
proof -
  define m where "m = defaults config ++ sd"
  have "fst (get_selinux rt config) =
      (case m ''selinux'' of
         None \<Rightarrow> Inr None
       | Some v \<Rightarrow>
           (case before_get rt d ''selinux'' v m of
              Inl e \<Rightarrow> Inl e
            | Inr val \<Rightarrow> if val = ''unchanged'' then Inr None else Inr (Some val)))"
    using assms(2)
    by (simp add: get_selinux_unfold section_has [OF assms(1,3)] section_get [OF assms(1,3)]
        optionxform_selinux m_def [symmetric] split: option.splits sum.splits)
  then show ?thesis
    unfolding m_def [symmetric] by (simp add: before_get_plain)
qed

text \<open>
  The scenario of the specification: \<open>selinux = permissive\<close> is returned as it is.
\<close>

theorem get_selinux_cases_witness:
  "fst (get_selinux python3 scenario) = Inr (Some ''permissive'')"
proof -
  note cases = get_selinux_cases [OF scenario_loaded scenario_device scenario_deviceA]
  show ?thesis
    by (rule cases [THEN conjunct2, THEN conjunct2, rule_format])
      (simp add: scenario_def document_def)
qed

text \<open>
  Against the claim as stated: with \<^verbatim>\<open>selinux =\<close> (an empty value) in the device's
  section, \<open>get_selinux()\<close> returns the empty string, not \<open>None\<close>, under both
  interpreters.
\<close>

theorem get_selinux_empty_counterexample:
  "fst (get_device python3
          (document [] [(''Defaults'', [(''device'', ''deviceA'')]), (''deviceA'', [(''selinux'', [])])]))
     = Inr ''deviceA''
   \<and> fst (get_selinux python3
          (document [] [(''Defaults'', [(''device'', ''deviceA'')]), (''deviceA'', [(''selinux'', [])])]))
     = Inr (Some [])
   \<and> fst (get_selinux python2
          (document [] [(''Defaults'', [(''device'', ''deviceA'')]), (''deviceA'', [(''selinux'', [])])]))
     = Inr (Some [])"
  by code_simp

subsection \<open>C2: \<open>has\<close> on a missing section\<close>

text \<open>
  C2. The claim is that \<open>has(section, option)\<close> never raises and returns false when the
  section does not exist. The Python 2 branch (\<open>config.has_option\<close>) does so. The
  Python 3 branch evaluates \<open>config[section]\<close> first, which raises \<open>KeyError\<close> for a
  section that does not exist: with only \<^verbatim>\<open>[Defaults] device = deviceA\<close> in the document,
  \<open>has('deviceA', 'selinux')\<close> raises under Python 3 and returns false under Python 2.
\<close>

theorem has_missing_section:
  "fst (has python3 ''deviceA'' ''selinux'' (document [] [(''Defaults'', [(''device'', ''deviceA'')])]))
     = Inl (KeyError ''deviceA'')
   \<and> fst (has python2 ''deviceA'' ''selinux'' (document [] [(''Defaults'', [(''device'', ''deviceA'')])]))
     = Inr False"
  by code_simp

subsection \<open>C3: when \<open>get\<close> raises a lookup error\<close>




subsection \<open>C4: \<open>get\<close> on a pair of the document\<close>

text \<open>
  C4 (as amended). For every section and option of a loaded document whose stored string
  holds no \<open>%\<close>, \<open>get(section, option)\<close> returns exactly the stored string and leaves
  the document as it is. The option is named as the parser stores it, in lower case; the
  options of \<open>[DEFAULT]\<close> are read under the section name \<open>DEFAULT\<close>. The claim as
  stated has the stored string returned unmodified for every pair; a \<open>%\<close> in it is
  interpolated.
\<close>

theorem get_returns_stored:
  assumes "loaded config"
    and "(section = DEFAULTSECT \<and> defaults config opt = Some v)
         \<or> (\<exists>sd. sections config section = Some sd \<and> sd opt = Some v)"
    and "optionxform rt opt = opt"
    and "CHR ''%'' \<notin> set v"
  shows "get rt section opt config = (Inr v, config)"
proof -
  have "fst (get rt section opt config) = Inr v"
    using assms(2)
  proof
    assume "section = DEFAULTSECT \<and> defaults config opt = Some v"
    with assms show ?thesis
      by (simp add: default_get loaded_def before_get_plain)
  next
    assume "\<exists>sd. sections config section = Some sd \<and> sd opt = Some v"
    then obtain sd where sd: "sections config section = Some sd" "sd opt = Some v" by blast
    with assms show ?thesis
      by (simp add: section_get [OF assms(1) sd(1)] before_get_plain)
  qed
  then show ?thesis by (simp add: prod_eq_iff get_state)
qed

text \<open>
  In the scenario, \<open>get('deviceA', 'partition.boot')\<close> returns \<open>/dev/sda1\<close>.
\<close>

theorem get_returns_stored_witness:
  "get python3 ''deviceA'' ''partition.boot'' scenario = (Inr ''/dev/sda1'', scenario)"
proof -
  have "(''deviceA'' = DEFAULTSECT \<and> defaults scenario ''partition.boot'' = Some ''/dev/sda1'')
     \<or> (\<exists>sd. sections scenario ''deviceA'' = Some sd \<and> sd ''partition.boot'' = Some ''/dev/sda1'')"
    by (simp add: scenario_deviceA)
  moreover have "optionxform python3 ''partition.boot'' = ''partition.boot''"
    by (simp add: optionxform_def lower_char_def)
  moreover have "CHR ''%'' \<notin> set ''/dev/sda1''"
    by simp
  ultimately show ?thesis
    by (rule get_returns_stored [OF scenario_loaded])
qed

text \<open>
  Against the claim as stated: the stored string \<open>100%%\<close> is returned as \<open>100%\<close>
  under Python 3.
\<close>

theorem get_percent_counterexample:
  "(case sections (document [] [(''deviceA'', [(''partition.boot'', ''100%%'')])]) ''deviceA'' of
      None \<Rightarrow> None
    | Some sd \<Rightarrow> sd ''partition.boot'') = Some ''100%%''
   \<and> fst (get python3 ''deviceA'' ''partition.boot''
            (document [] [(''deviceA'', [(''partition.boot'', ''100%%'')])])) = Inr ''100%''"
  by code_simp

subsection \<open>C5: \<open>get_device\<close>\<close>

text \<open>
  C5 (as amended). \<open>get_device()\<close> is \<open>get('Defaults', 'device')\<close>: on every loaded
  document and under both interpreters the two return the same string or raise the same
  error, and leave the same document behind. Both return the value of \<open>device\<close> found
  in \<open>[Defaults]\<close> or, when that section lacks it, in \<open>[DEFAULT]\<close>, exactly so when the
  value holds no \<open>%\<close>; both raise the same lookup error when the section
  \<open>Defaults\<close> is missing or \<open>device\<close> is found neither in it nor in
  \<open>[DEFAULT]\<close>. The claim as stated has the error whenever \<open>[Defaults]\<close> lacks the
  key.
\<close>

theorem get_device_is_get:
  assumes "loaded config"
  shows "get_device rt config = get rt ''Defaults'' ''device'' config
       \<and> (\<forall>sd v. sections config ''Defaults'' = Some sd
              \<and> (defaults config ++ sd) ''device'' = Some v \<and> CHR ''%'' \<notin> set v \<longrightarrow>
            get_device rt config = (Inr v, config)
            \<and> get rt ''Defaults'' ''device'' config = (Inr v, config))
       \<and> ((case sections config ''Defaults'' of
              None \<Rightarrow> True
            | Some sd \<Rightarrow> (defaults config ++ sd) ''device'' = None) \<longrightarrow>
            (\<exists>e. lookup_error e
               \<and> get_device rt config = (Inl e, config)
               \<and> get rt ''Defaults'' ''device'' config = (Inl e, config)))"
proof -
  have same: "get_device rt config = get rt ''Defaults'' ''device'' config"
    by (simp add: get_device_def)
  have found: "\<forall>sd v. sections config ''Defaults'' = Some sd
              \<and> (defaults config ++ sd) ''device'' = Some v \<and> CHR ''%'' \<notin> set v \<longrightarrow>
            get_device rt config = (Inr v, config)
            \<and> get rt ''Defaults'' ''device'' config = (Inr v, config)"
  proof (intro allI impI)
    fix sd v
    assume a: "sections config ''Defaults'' = Some sd
      \<and> (defaults config ++ sd) ''device'' = Some v \<and> CHR ''%'' \<notin> set v"
    have "fst (get_device rt config) = Inr v"
      by (rule get_device_found [OF assms]) (use a in blast)+
    then have "get_device rt config = (Inr v, config)"
      by (simp add: prod_eq_iff get_device_state)
    with same show "get_device rt config = (Inr v, config)
        \<and> get rt ''Defaults'' ''device'' config = (Inr v, config)"
      by simp
  qed
  have missing: "(case sections config ''Defaults'' of
              None \<Rightarrow> True
            | Some sd \<Rightarrow> (defaults config ++ sd) ''device'' = None) \<longrightarrow>
            (\<exists>e. lookup_error e
               \<and> get_device rt config = (Inl e, config)
               \<and> get rt ''Defaults'' ''device'' config = (Inl e, config))"
  proof
    assume a: "case sections config ''Defaults'' of
              None \<Rightarrow> True
            | Some sd \<Rightarrow> (defaults config ++ sd) ''device'' = None"
    from get_device_missing [OF assms a, of rt]
    obtain e where e: "lookup_error e" "fst (get_device rt config) = Inl e" by blast
    from e(2) have "get_device rt config = (Inl e, config)"
      by (simp add: prod_eq_iff get_device_state)
    with same e(1) show "\<exists>e. lookup_error e
               \<and> get_device rt config = (Inl e, config)
               \<and> get rt ''Defaults'' ''device'' config = (Inl e, config)"
      by auto
  qed
  from same found missing show ?thesis by (intro conjI)
qed

text \<open>
  In the scenario both return \<open>deviceA\<close>.
\<close>

theorem get_device_is_get_witness:
  "get_device python3 scenario = (Inr ''deviceA'', scenario)
   \<and> get python3 ''Defaults'' ''device'' scenario = (Inr ''deviceA'', scenario)"
  by (rule get_device_is_get [OF scenario_loaded, THEN conjunct2, THEN conjunct1, rule_format,
        of "map_of [(''device'', ''deviceA'')]" "''deviceA''" python3])
    (simp add: scenario_def document_def)

text \<open>
  Against the claim as stated: \<open>[Defaults]\<close> is there without \<open>device\<close>,
  \<open>[DEFAULT]\<close> has \<open>device = deviceA\<close>, and \<open>get_device()\<close> and
  \<open>get('Defaults', 'device')\<close> return \<open>deviceA\<close> under both interpreters: the key is
  missing from the section and no error is raised.
\<close>

theorem get_device_default_counterexample:
  "(case sections (document [(''device'', ''deviceA'')] [(''Defaults'', [])]) ''Defaults'' of
      None \<Rightarrow> False
    | Some sd \<Rightarrow> sd ''device'' = None)
   \<and> fst (get_device python3 (document [(''device'', ''deviceA'')] [(''Defaults'', [])]))
     = Inr ''deviceA''
   \<and> fst (get python3 ''Defaults'' ''device'' (document [(''device'', ''deviceA'')] [(''Defaults'', [])]))
     = Inr ''deviceA''
   \<and> fst (get_device python2 (document [(''device'', ''deviceA'')] [(''Defaults'', [])]))
     = Inr ''deviceA''"
  by code_simp

subsection \<open>C6: \<open>get_ramdisk_offset\<close> and \<open>get_partition\<close>\<close>

text \<open>
  C6 (as amended). In every loaded document in which \<open>get_device()\<close> returns the
  name \<open>d\<close> of a section, and for every name: \<open>get_ramdisk_offset()\<close> returns
  \<open>None\<close> if and only if \<open>ramdisk_offset\<close> is found neither in \<open>d\<close> nor in
  \<open>[DEFAULT]\<close>, and returns the value found exactly when that value holds no \<open>%\<close>;
  \<open>get_partition(name)\<close> does the same for the key \<open>partition.\<close> followed by the
  lower-cased name. No value is turned into \<open>None\<close>: not \<open>unchanged\<close>, not the empty
  string. The claim as stated has \<open>None\<close> whenever \<open>d\<close> lacks the key, and every stored
  value returned verbatim.
\<close>

theorem device_options_verbatim:
  assumes "loaded config"
    and "fst (get_device rt config) = Inr d"
    and "sections config d = Some sd"
  shows "(fst (get_ramdisk_offset rt config) = Inr None \<longleftrightarrow>
            (defaults config ++ sd) ''ramdisk_offset'' = None)
       \<and> (\<forall>v. (defaults config ++ sd) ''ramdisk_offset'' = Some v \<and> CHR ''%'' \<notin> set v \<longrightarrow>
            fst (get_ramdisk_offset rt config) = Inr (Some v))
       \<and> (fst (get_partition rt name config) = Inr None \<longleftrightarrow>
            (defaults config ++ sd) (''partition.'' @ optionxform rt name) = None)
       \<and> (\<forall>v. (defaults config ++ sd) (''partition.'' @ optionxform rt name) = Some v
              \<and> CHR ''%'' \<notin> set v \<longrightarrow>
            fst (get_partition rt name config) = Inr (Some v))"
proof -
  define m where "m = defaults config ++ sd"
  have r: "fst (get_ramdisk_offset rt config) =
      (case m ''ramdisk_offset'' of
         None \<Rightarrow> Inr None
       | Some v \<Rightarrow> map_sum id Some (before_get rt d ''ramdisk_offset'' v m))"
    using assms(2)
    by (simp add: get_ramdisk_offset_unfold section_has [OF assms(1,3)]
        section_get [OF assms(1,3)] optionxform_ramdisk_offset m_def [symmetric]
        split: option.splits)
  have p: "fst (get_partition rt name config) =
      (case m (''partition.'' @ optionxform rt name) of
         None \<Rightarrow> Inr None
       | Some v \<Rightarrow> map_sum id Some
           (before_get rt d (''partition.'' @ optionxform rt name) v m))"
    using assms(2)
    by (simp add: get_partition_unfold section_has [OF assms(1,3)]
        section_get [OF assms(1,3)] optionxform_partition [simplified] m_def [symmetric]
        split: option.splits)
  have n: "map_sum id Some x \<noteq> Inr None" for x :: "error + string"
    by (cases x) simp_all
  show ?thesis
    unfolding m_def [symmetric]
    by (auto simp: r p n before_get_plain split: option.splits)
qed

text \<open>
  In the scenario, \<open>get_ramdisk_offset()\<close> is \<open>None\<close>, \<open>get_partition('boot')\<close> is
  \<open>/dev/sda1\<close> and \<open>get_partition('recovery')\<close> is \<open>None\<close>.
\<close>

theorem device_options_verbatim_witness:
  "fst (get_ramdisk_offset python3 scenario) = Inr None
   \<and> fst (get_partition python3 ''boot'' scenario) = Inr (Some ''/dev/sda1'')
   \<and> fst (get_partition python3 ''recovery'' scenario) = Inr None"
proof -
  note boot = device_options_verbatim [OF scenario_loaded scenario_device scenario_deviceA, of "''boot''"]
  note recovery =
    device_options_verbatim [OF scenario_loaded scenario_device scenario_deviceA, of "''recovery''"]
  have "fst (get_ramdisk_offset python3 scenario) = Inr None"
    using boot [THEN conjunct1] by (simp add: scenario_def document_def)
  moreover have "fst (get_partition python3 ''boot'' scenario) = Inr (Some ''/dev/sda1'')"
    by (rule boot [THEN conjunct2, THEN conjunct2, THEN conjunct2, rule_format])
      (simp add: scenario_def document_def optionxform_def lower_char_def)
  moreover have "fst (get_partition python3 ''recovery'' scenario) = Inr None"
    using recovery [THEN conjunct2, THEN conjunct2, THEN conjunct1]
    by (simp add: scenario_def document_def optionxform_def lower_char_def)
  ultimately show ?thesis by simp
qed

text \<open>
  Against the claim as stated: the section \<open>deviceA\<close> has no \<open>ramdisk_offset\<close> and
  \<open>get_ramdisk_offset()\<close> returns the \<open>0x01\<close> of \<open>[DEFAULT]\<close>; the stored
  \<open>partition.boot = a%%b\<close> is returned as \<open>a%b\<close>.
\<close>

theorem device_options_counterexample:
  "fst (get_device python3
          (document [(''ramdisk_offset'', ''0x01'')]
             [(''Defaults'', [(''device'', ''deviceA'')]), (''deviceA'', [(''partition.boot'', ''a%%b'')])]))
     = Inr ''deviceA''
   \<and> (case sections
          (document [(''ramdisk_offset'', ''0x01'')]
             [(''Defaults'', [(''device'', ''deviceA'')]), (''deviceA'', [(''partition.boot'', ''a%%b'')])])
          ''deviceA'' of
        None \<Rightarrow> False
      | Some sd \<Rightarrow> sd ''ramdisk_offset'' = None \<and> sd ''partition.boot'' = Some ''a%%b'')
   \<and> fst (get_ramdisk_offset python3
          (document [(''ramdisk_offset'', ''0x01'')]
             [(''Defaults'', [(''device'', ''deviceA'')]), (''deviceA'', [(''partition.boot'', ''a%%b'')])]))
     = Inr (Some ''0x01'')
   \<and> fst (get_partition python3 ''boot''
          (document [(''ramdisk_offset'', ''0x01'')]
             [(''Defaults'', [(''device'', ''deviceA'')]), (''deviceA'', [(''partition.boot'', ''a%%b'')])]))
     = Inr (Some ''a%b'')"
  by code_simp

subsection \<open>C7: a document without a device\<close>




subsection \<open>C8: the accessors leave the document as it is\<close>

text \<open>
  C8. Whatever the document, the interpreter and the arguments, the parser object after
  a call of \<open>get\<close>, \<open>has\<close>, \<open>get_device\<close>, \<open>get_selinux\<close>,
  \<open>get_ramdisk_offset\<close> or \<open>get_partition\<close> is the parser object before it, also
  when the call raises.
\<close>

theorem accessors_leave_document:
  "snd (get rt section opt config) = config
   \<and> snd (has rt section opt config) = config
   \<and> snd (get_device rt config) = config
   \<and> snd (get_selinux rt config) = config
   \<and> snd (get_ramdisk_offset rt config) = config
   \<and> snd (get_partition rt name config) = config"
  by (simp add: get_state has_state get_device_state get_selinux_state
      get_ramdisk_offset_state get_partition_state)

theorem accessors_leave_document_witness:
  "snd (get python3 ''deviceA'' ''selinux'' scenario) = scenario
   \<and> snd (has python3 ''deviceA'' ''selinux'' scenario) = scenario
   \<and> snd (get_device python3 scenario) = scenario
   \<and> snd (get_selinux python3 scenario) = scenario
   \<and> snd (get_ramdisk_offset python3 scenario) = scenario
   \<and> snd (get_partition python3 ''boot'' scenario) = scenario"
  by (rule accessors_leave_document)

subsection \<open>C9: \<open>has\<close> and \<open>get\<close>\<close>

text \<open>
  C9 (as amended). In every loaded document and for every section name that is not
  empty: when \<open>has(section, option)\<close> returns true, the option is found in the section
  or in \<open>[DEFAULT]\<close>, and \<open>get(section, option)\<close> returns the value found when that
  value holds no \<open>%\<close>; when \<open>has\<close> returns false, \<open>get\<close> raises a lookup error.
  The claim as stated has \<open>get\<close> succeed with the stored value whenever \<open>has\<close> is
  true.
\<close>

theorem has_get_agree:
  assumes "loaded config" and "section \<noteq> []"
  shows "(fst (has rt section opt config) = Inr True \<longrightarrow>
            (\<exists>v. (case sections config section of None \<Rightarrow> defaults config
                                                | Some sd \<Rightarrow> defaults config ++ sd)
                    (optionxform rt opt) = Some v
               \<and> (CHR ''%'' \<notin> set v \<longrightarrow> fst (get rt section opt config) = Inr v)))
       \<and> (fst (has rt section opt config) = Inr False \<longrightarrow>
            (\<exists>e. fst (get rt section opt config) = Inl e \<and> lookup_error e))"
proof (cases "sections config section")
  case (Some sd)
  define m where "m = defaults config ++ sd"
  have "(fst (has rt section opt config) = Inr True \<longrightarrow>
            (\<exists>v. m (optionxform rt opt) = Some v
               \<and> (CHR ''%'' \<notin> set v \<longrightarrow> fst (get rt section opt config) = Inr v)))
       \<and> (fst (has rt section opt config) = Inr False \<longrightarrow>
            (\<exists>e. fst (get rt section opt config) = Inl e \<and> lookup_error e))"
    by (auto simp: section_has [OF assms(1) Some] section_get [OF assms(1) Some]
        m_def [symmetric] before_get_plain)
  with Some show ?thesis by (simp add: m_def)
next
  case None
  show ?thesis
  proof (cases "section = DEFAULTSECT")
    case True
    with None show ?thesis
      by (auto simp: fst_has has_option_def default_get before_get_plain)
  next
    case False
    with None assms(2) show ?thesis
      by (auto simp: fst_has has_option_def missing_section_get)
  qed
qed

text \<open>
  In the scenario, \<open>has('deviceA', 'selinux')\<close> is true and \<open>get\<close> returns
  \<open>permissive\<close>.
\<close>

theorem has_get_agree_witness:
  "fst (has python3 ''deviceA'' ''selinux'' scenario) = Inr True
   \<and> fst (get python3 ''deviceA'' ''selinux'' scenario) = Inr ''permissive''"
proof -
  have ne: "''deviceA'' \<noteq> []" by simp
  have h: "fst (has python3 ''deviceA'' ''selinux'' scenario) = Inr True"
    by code_simp
  from has_get_agree [OF scenario_loaded ne, of python3 "''selinux''", THEN conjunct1, rule_format, OF h]
  obtain v where "(case sections scenario ''deviceA'' of
                     None \<Rightarrow> defaults scenario
                   | Some sd \<Rightarrow> defaults scenario ++ sd) (optionxform python3 ''selinux'') = Some v"
    and "CHR ''%'' \<notin> set v \<longrightarrow> fst (get python3 ''deviceA'' ''selinux'' scenario) = Inr v"
    by blast
  then have "fst (get python3 ''deviceA'' ''selinux'' scenario) = Inr ''permissive''"
    by (auto simp: scenario_deviceA optionxform_selinux scenario_def document_def)
  with h show ?thesis by (rule conjI)
qed

text \<open>
  Against the claim as stated: with \<open>ramdisk_offset = 50%\<close> in the section,
  \<open>has\<close> is true and \<open>get\<close> raises an interpolation error under Python 3.
\<close>

theorem has_get_percent_counterexample:
  "fst (has python3 ''deviceA'' ''ramdisk_offset''
          (document [] [(''deviceA'', [(''ramdisk_offset'', ''50%'')])])) = Inr True
   \<and> fst (get python3 ''deviceA'' ''ramdisk_offset''
          (document [] [(''deviceA'', [(''ramdisk_offset'', ''50%'')])]))
     = Inl (InterpolationSyntaxError ''ramdisk_offset'' ''deviceA'')"
  by code_simp

end
